theory Spec2Isabelle
  imports Complex_Main
begin

section \<open>Apparent-horizon finder: the right-hand side and the shooting pipeline\<close>

text \<open>
  The notebook \<^verbatim>\<open>notebooks/02-horizon-finding.ipynb\<close> computes in numpy's
  floating point. The embedding below reads every arithmetic operation over the reals
  (\<^typ>\<open>real\<close>), that is, in exact arithmetic. Where the source divides by a quantity
  that an input can make zero (a distance, \<^verbatim>\<open>h\<close>) numpy produces \<open>inf\<close> or \<open>nan\<close> with
  a warning instead of a finite result; the model returns the error \<open>NumericalDomain\<close>
  there. The failing \<^verbatim>\<open>assert\<close> is the error \<open>InvalidInput\<close>.
\<close>

subsection \<open>Errors and data\<close>

datatype error = InvalidInput | NumericalDomain | IndexError

text \<open>The state vector \<open>H = [h, dh/dtheta]\<close> and the accumulators
  \<open>(psi, dpsi_dr, dpsi_dtheta)\<close> of the loop over the singularities.\<close>

type_synonym state_vector = "real \<times> real"

type_synonym field_sample = "real \<times> real \<times> real"

subsection \<open>\<^verbatim>\<open>horizon_RHS\<close>: the loop over the singularities (source lines 99 to 112)\<close>

text \<open>\<^verbatim>\<open>numpy.all(numpy.array(z_singularities) >= 0.0)\<close>, the asserted condition.\<close>

definition valid_singularities :: "real list \<Rightarrow> bool" where
  "valid_singularities zs = list_all (\<lambda>z. 0 \<le> z) zs"

text \<open>\<^verbatim>\<open>numpy.sqrt((h*numpy.sin(theta))**2 + (h*numpy.cos(theta) - z)**2)\<close>\<close>

definition distance :: "real \<Rightarrow> real \<Rightarrow> real \<Rightarrow> real" where
  "distance h \<theta> z = sqrt ((h * sin \<theta>)\<^sup>2 + (h * cos \<theta> - z)\<^sup>2)"

text \<open>\<^verbatim>\<open>numpy.sqrt((h*numpy.sin(theta))**2 + (h*numpy.cos(theta) + z)**2)\<close>\<close>

definition distance_mirror :: "real \<Rightarrow> real \<Rightarrow> real \<Rightarrow> real" where
  "distance_mirror h \<theta> z = sqrt ((h * sin \<theta>)\<^sup>2 + (h * cos \<theta> + z)\<^sup>2)"

text \<open>
  Lines 103 to 106, the three updates for the source itself. Each of them divides by
  \<^verbatim>\<open>distance\<close> or \<^verbatim>\<open>distance**3\<close>, which vanish together. The third update is
  written \<^verbatim>\<open>0.5**h*z*numpy.sin(theta)/distance**3\<close> in the source: \<^verbatim>\<open>**\<close> is
  Python's power and binds tighter than \<^verbatim>\<open>*\<close>, so the coefficient is \<open>0.5\<close> to the
  power \<open>h\<close>.
\<close>

definition direct_contribution :: "real \<Rightarrow> real \<Rightarrow> real \<Rightarrow> field_sample \<Rightarrow> error + field_sample" where
  "direct_contribution h \<theta> z acc =
     (case acc of (psi, dpsi_dr, dpsi_dtheta) \<Rightarrow>
        let d = distance h \<theta> z in
        if d = 0 then Inl NumericalDomain
        else Inr (psi + 0.5 / d,
                  dpsi_dr - 0.5 * (h - z * cos \<theta>) / d ^ 3,
                  dpsi_dtheta - ((0.5 powr h) * z * sin \<theta>) / d ^ 3))"

text \<open>Lines 109 to 112, the three updates under \<^verbatim>\<open>if z > 0.0\<close> ("Apply reflection
  symmetry").\<close>

definition mirror_contribution :: "real \<Rightarrow> real \<Rightarrow> real \<Rightarrow> field_sample \<Rightarrow> error + field_sample" where
  "mirror_contribution h \<theta> z acc =
     (case acc of (psi, dpsi_dr, dpsi_dtheta) \<Rightarrow>
        let d = distance_mirror h \<theta> z in
        if d = 0 then Inl NumericalDomain
        else Inr (psi + 0.5 / d,
                  dpsi_dr - 0.5 * (h + z * cos \<theta>) / d ^ 3,
                  dpsi_dtheta + ((0.5 powr h) * z * sin \<theta>) / d ^ 3))"

text \<open>One pass through the body of \<^verbatim>\<open>for z in z_singularities\<close>.\<close>

definition source_step :: "real \<Rightarrow> real \<Rightarrow> real \<Rightarrow> field_sample \<Rightarrow> error + field_sample" where
  "source_step h \<theta> z acc =
     (case direct_contribution h \<theta> z acc of
        Inl e \<Rightarrow> Inl e
      | Inr acc1 \<Rightarrow> if 0 < z then mirror_contribution h \<theta> z acc1 else Inr acc1)"

fun field_loop :: "real \<Rightarrow> real \<Rightarrow> real list \<Rightarrow> field_sample \<Rightarrow> error + field_sample" where
  "field_loop h \<theta> [] acc = Inr acc"
| "field_loop h \<theta> (z # zs) acc =
     (case source_step h \<theta> z acc of
        Inl e \<Rightarrow> Inl e
      | Inr acc1 \<Rightarrow> field_loop h \<theta> zs acc1)"

text \<open>The loop started from \<^verbatim>\<open>psi = 1.0\<close>, \<^verbatim>\<open>dpsi_dr = 0.0\<close>,
  \<^verbatim>\<open>dpsi_dtheta = 0.0\<close>: the specification's SingularityField.\<close>

definition SingularityField :: "real \<Rightarrow> real \<Rightarrow> real list \<Rightarrow> error + field_sample" where
  "SingularityField h \<theta> zs = field_loop h \<theta> zs (1, 0, 0)"

subsection \<open>\<^verbatim>\<open>horizon_RHS\<close>: the derivative vector (source lines 94 and 115 to 126)\<close>

text \<open>\<^verbatim>\<open>(abs(theta) < 1e-16) or (abs(theta - numpy.pi) < 1e-16)\<close>\<close>

definition on_axis :: "real \<Rightarrow> bool" where
  "on_axis \<theta> = (\<bar>\<theta>\<bar> < 1 / 10 ^ 16 \<or> \<bar>\<theta> - pi\<bar> < 1 / 10 ^ 16)"

text \<open>
  Lines 117 to 120. The source has no failing branch here: off the axis it computes
  \<^verbatim>\<open>dh / (numpy.tan(theta) * C2)\<close>, and \<^verbatim>\<open>numpy.tan\<close> neither fails nor vanishes at an
  angle that passes the guard. The model is the same expression with HOL's total
  \<^term>\<open>tan \<theta>\<close> and division. Wherever \<^term>\<open>sin \<theta> \<noteq> 0\<close> it is the real number
  \<open>cot \<theta> \<cdot> dh / C2\<close> (lemma \<open>cot_theta_dh_C2_cot\<close> below); at \<open>\<theta> = \<pi>/2\<close>, where the
  real tangent has a pole, this is \<open>0\<close>.
\<close>

definition cot_theta_dh_C2 :: "real \<Rightarrow> real \<Rightarrow> real \<Rightarrow> real" where
  "cot_theta_dh_C2 \<theta> dh C2 = (if on_axis \<theta> then 0 else dh / (tan \<theta> * C2))"

text \<open>
  The whole function. The assertion comes first; then the loop; then
  \<^verbatim>\<open>C2 = 1.0 / (1.0 + (dh / h)**2)\<close>, the cotangent term and the result
  \<^verbatim>\<open>2.0*h - cot_theta_dh_C2 + 4.0*h**2/(psi*C2)*(dpsi_dr - dpsi_dtheta*dh/h**2) + 3.0*dh**2/h\<close>,
  with the divisors \<^verbatim>\<open>h\<close>, \<^verbatim>\<open>1.0 + (dh / h)**2\<close> and \<^verbatim>\<open>psi*C2\<close> checked (the
  last two never vanish, lemma \<open>horizon_RHS_unfold\<close> below).
\<close>

definition horizon_RHS :: "state_vector \<Rightarrow> real \<Rightarrow> real list \<Rightarrow> error + state_vector" where
  "horizon_RHS H \<theta> z_singularities =
     (case H of (h, dh) \<Rightarrow>
        if \<not> valid_singularities z_singularities then Inl InvalidInput
        else
          (case field_loop h \<theta> z_singularities (1, 0, 0) of
             Inl e \<Rightarrow> Inl e
           | Inr (psi, dpsi_dr, dpsi_dtheta) \<Rightarrow>
               if h = 0 \<or> 1 + (dh / h)\<^sup>2 = 0 then Inl NumericalDomain
               else
                 let C2 = 1 / (1 + (dh / h)\<^sup>2);
                     c = cot_theta_dh_C2 \<theta> dh C2
                 in
                 if psi * C2 = 0 then Inl NumericalDomain
                 else Inr (dh,
                           2 * h - c
                             + 4 * h\<^sup>2 / (psi * C2) * (dpsi_dr - dpsi_dtheta * dh / h\<^sup>2)
                             + 3 * dh\<^sup>2 / h)))"

subsection \<open>The steppers\<close>

text \<open>Componentwise sum and scaling of state vectors (numpy's array arithmetic).\<close>

definition vadd :: "state_vector \<Rightarrow> state_vector \<Rightarrow> state_vector" where
  "vadd a b = (fst a + fst b, snd a + snd b)"

definition vscale :: "real \<Rightarrow> state_vector \<Rightarrow> state_vector" where
  "vscale c a = (c * fst a, c * snd a)"

text \<open>
  Modelled from the spec: the body of \<^verbatim>\<open>euler_step(Hi, theta_i, dtheta, z_singularity)\<close>
  is missing from the notebook (the cell holds the signature, the docstring and a lone
  \<^verbatim>\<open>#\<close>). Section 4.3 of the specification gives
  \<open>H_{i+1} = H_i + \<Delta>\<theta> \<cdot> F(H_i, \<theta>_i)\<close>, and errors of the embedded call of the
  right-hand side pass unchanged to the caller.
\<close>

definition euler_step :: "state_vector \<Rightarrow> real \<Rightarrow> real \<Rightarrow> real list \<Rightarrow> error + state_vector" where
  "euler_step Hi theta_i dtheta z_singularity =
     (case horizon_RHS Hi theta_i z_singularity of
        Inl e \<Rightarrow> Inl e
      | Inr F \<Rightarrow> Inr (vadd Hi (vscale dtheta F)))"

text \<open>
  Modelled from the spec: the body of \<^verbatim>\<open>rk2_step(Hi, theta_i, dtheta, z_singularity)\<close>
  is missing from the notebook in the same way. Section 4.3 gives the predictor
  \<open>H_p = H_i + \<Delta>\<theta> \<cdot> F(H_i, \<theta>_i)\<close> and the corrector
  \<open>H_{i+1} = 0.5 \<cdot> (H_i + H_p + \<Delta>\<theta> \<cdot> F(H_p, \<theta>_{i+1}))\<close>, with
  \<open>\<theta>_{i+1} = \<theta>_i + \<Delta>\<theta>\<close> on the uniform grid.
\<close>

definition rk2_step :: "state_vector \<Rightarrow> real \<Rightarrow> real \<Rightarrow> real list \<Rightarrow> error + state_vector" where
  "rk2_step Hi theta_i dtheta z_singularity =
     (case horizon_RHS Hi theta_i z_singularity of
        Inl e \<Rightarrow> Inl e
      | Inr F \<Rightarrow>
          let Hp = vadd Hi (vscale dtheta F) in
          (case horizon_RHS Hp (theta_i + dtheta) z_singularity of
             Inl e \<Rightarrow> Inl e
           | Inr Fp \<Rightarrow> Inr (vscale 0.5 (vadd (vadd Hi Hp) (vscale dtheta Fp)))))"

text \<open>
  Modelled from the spec: the trapezoidal form that section 4.3 (and the notebook's text
  above the empty cell) says the corrector is a rearrangement of,
  \<open>H_{i+1} = H_i + (\<Delta>\<theta> / 2) \<cdot> (F(H_i, \<theta>_i) + F(H_p, \<theta>_{i+1}))\<close>.
\<close>

definition rk2_trapezoid :: "state_vector \<Rightarrow> real \<Rightarrow> real \<Rightarrow> real list \<Rightarrow> error + state_vector" where
  "rk2_trapezoid Hi theta_i dtheta z_singularity =
     (case horizon_RHS Hi theta_i z_singularity of
        Inl e \<Rightarrow> Inl e
      | Inr F \<Rightarrow>
          let Hp = vadd Hi (vscale dtheta F) in
          (case horizon_RHS Hp (theta_i + dtheta) z_singularity of
             Inl e \<Rightarrow> Inl e
           | Inr Fp \<Rightarrow> Inr (vadd Hi (vscale (dtheta / 2) (vadd F Fp)))))"

subsection \<open>The integration driver (source lines 202 to 210)\<close>

text \<open>\<^verbatim>\<open>numpy.linspace(a, b, n)\<close>: \<open>n\<close> evenly spaced points, \<open>a + i (b - a) / (n - 1)\<close>;
  for \<open>n = 1\<close> the only index is \<open>0\<close> and the point is \<open>a\<close>.\<close>

definition linspace :: "real \<Rightarrow> real \<Rightarrow> nat \<Rightarrow> real list" where
  "linspace a b n = map (\<lambda>i. a + real i * ((b - a) / real (n - 1))) [0..<n]"

text \<open>\<^verbatim>\<open>for i in range(Ntheta-1): H[:, i+1] = step(H[:, i], theta[i], dtheta, z_singularity)\<close>,
  over the angles \<^verbatim>\<open>theta[0], ..., theta[Ntheta-2]\<close>; the result is the list of the
  columns of \<^verbatim>\<open>H\<close>. A step that fails ends the loop with its error.\<close>

fun integrate_loop ::
  "(state_vector \<Rightarrow> real \<Rightarrow> real \<Rightarrow> real list \<Rightarrow> error + state_vector)
     \<Rightarrow> real list \<Rightarrow> real \<Rightarrow> real list \<Rightarrow> state_vector \<Rightarrow> error + state_vector list" where
  "integrate_loop step zs dtheta [] H = Inr [H]"
| "integrate_loop step zs dtheta (theta_i # thetas) H =
     (case step H theta_i dtheta zs of
        Inl e \<Rightarrow> Inl e
      | Inr H1 \<Rightarrow>
          (case integrate_loop step zs dtheta thetas H1 of
             Inl e \<Rightarrow> Inl e
           | Inr tr \<Rightarrow> Inr (H # tr)))"

text \<open>
  The driver cell, with the stepper, the first radius and the number of grid points as
  parameters (the cells of the notebook use \<^verbatim>\<open>euler_step\<close> and \<^verbatim>\<open>rk2_step\<close>,
  \<^verbatim>\<open>[0.5, 0.0]\<close> and \<^verbatim>\<open>[h0, 0.0]\<close>, and \<^verbatim>\<open>Ntheta = 100\<close>):
  \<^verbatim>\<open>theta = numpy.linspace(0.0, numpy.pi/2.0, Ntheta)\<close>,
  \<^verbatim>\<open>dtheta = theta[1] - theta[0]\<close> (an IndexError when the grid has fewer than two
  points), \<^verbatim>\<open>H[:, 0] = [h0, 0.0]\<close>, then the loop.
\<close>

definition integrate ::
  "(state_vector \<Rightarrow> real \<Rightarrow> real \<Rightarrow> real list \<Rightarrow> error + state_vector)
     \<Rightarrow> real \<Rightarrow> nat \<Rightarrow> real list \<Rightarrow> error + state_vector list" where
  "integrate step h0 Ntheta z_singularity =
     (let theta = linspace 0 (pi / 2) Ntheta in
      if length theta < 2 then Inl IndexError
      else integrate_loop step z_singularity (theta ! 1 - theta ! 0)
             (take (Ntheta - 1) theta) (h0, 0))"

subsection \<open>The shooting residual and the secant solver\<close>

text \<open>
  Modelled from the spec: the body of \<^verbatim>\<open>residual(h0, z_singularities)\<close> is missing from
  the notebook. Section 4.5: run the integrator from \<open>h0\<close> and return the \<open>dh/d\<theta>\<close>
  component of the last trajectory entry. The stepper and the grid size, globals of the
  notebook, are parameters here.
\<close>

definition residual ::
  "(state_vector \<Rightarrow> real \<Rightarrow> real \<Rightarrow> real list \<Rightarrow> error + state_vector)
     \<Rightarrow> nat \<Rightarrow> real \<Rightarrow> real list \<Rightarrow> error + real" where
  "residual step Ntheta h0 z_singularities =
     (case integrate step h0 Ntheta z_singularities of
        Inl e \<Rightarrow> Inl e
      | Inr tr \<Rightarrow> Inr (snd (last tr)))"

text \<open>
  Modelled from the spec: the failures of the solver (sections 4.6 and 7), which the
  notebook does not have: an error of a residual evaluation or an invalid candidate
  (\<open>Failed\<close>), a vanishing secant denominator, and an exhausted iteration budget, which
  carries the last iterate and its residual.
\<close>

datatype solve_error = Failed error | DivergenceError | NonConvergenceError real real

text \<open>
  Modelled from the spec: the body of \<^verbatim>\<open>secant(R, x0, x1, args, tolerance = 1e-10)\<close> is
  missing from the notebook, and the signature in the notebook has no iteration bound.
  Section 4.6: the update
  \<open>x_{n+1} = x_n - R(x_n) (x_n - x_{n-1}) / (R(x_n) - R(x_{n-1}))\<close>; stop when
  \<open>|R(x_n)| < tolerance\<close> or when the iteration count exceeds \<open>maxIterations\<close>; a
  vanishing denominator is a DivergenceError, an exhausted budget a NonConvergenceError
  with the last iterate and residual, a candidate \<open>\<le> 0\<close> an InvalidInput. The argument
  of the loop after the tolerance counts the updates still allowed; \<open>xp\<close>, \<open>rp\<close> are the
  previous iterate and its residual, \<open>x\<close>, \<open>r\<close> the current ones.
\<close>

fun secant_loop ::
  "(real \<Rightarrow> 'a \<Rightarrow> error + real) \<Rightarrow> 'a \<Rightarrow> real \<Rightarrow> nat \<Rightarrow> real \<Rightarrow> real \<Rightarrow> real \<Rightarrow> real
     \<Rightarrow> solve_error + real" where
  "secant_loop R args tol 0 xp rp x r =
     (if \<bar>r\<bar> < tol then Inr x else Inl (NonConvergenceError x r))"
| "secant_loop R args tol (Suc k) xp rp x r =
     (if \<bar>r\<bar> < tol then Inr x
      else if r - rp = 0 then Inl DivergenceError
      else
        let xn = x - r * (x - xp) / (r - rp) in
        if xn \<le> 0 then Inl (Failed InvalidInput)
        else
          (case R xn args of
             Inl e \<Rightarrow> Inl (Failed e)
           | Inr rn \<Rightarrow> secant_loop R args tol k x r xn rn))"

text \<open>Modelled from the spec: the tolerance is an optional argument with the default
  \<open>1e-10\<close> (as in the signature of the notebook).\<close>

definition tolerance_or_default :: "real option \<Rightarrow> real" where
  "tolerance_or_default tolerance = (case tolerance of None \<Rightarrow> 1 / 10 ^ 10 | Some t \<Rightarrow> t)"

text \<open>Modelled from the spec: the solver evaluates the residual at the two seeds, with
  the fixed parameters \<open>args\<close> fed through, and enters the loop with \<open>maxIterations\<close>
  updates allowed.\<close>

definition secant ::
  "(real \<Rightarrow> 'a \<Rightarrow> error + real) \<Rightarrow> real \<Rightarrow> real \<Rightarrow> 'a \<Rightarrow> real option \<Rightarrow> nat
     \<Rightarrow> solve_error + real" where
  "secant R x0 x1 args tolerance maxIterations =
     (case R x0 args of
        Inl e \<Rightarrow> Inl (Failed e)
      | Inr r0 \<Rightarrow>
          (case R x1 args of
             Inl e \<Rightarrow> Inl (Failed e)
           | Inr r1 \<Rightarrow>
               secant_loop R args (tolerance_or_default tolerance) maxIterations x0 r0 x1 r1))"

subsection \<open>Predicates used in the statements\<close>

text \<open>No source coincides with the query point \<open>(h, \<theta>)\<close>: every distance the loop
  divides by is nonzero.\<close>

definition regular_point :: "real \<Rightarrow> real \<Rightarrow> real list \<Rightarrow> bool" where
  "regular_point h \<theta> zs =
     list_all (\<lambda>z. distance h \<theta> z \<noteq> 0 \<and> (0 < z \<longrightarrow> distance_mirror h \<theta> z \<noteq> 0)) zs"

text \<open>An input for the worked runs of the solver: the residual \<open>R(x) = x - 1/2\<close>, with no
  fixed parameters.\<close>

definition linear_residual :: "real \<Rightarrow> unit \<Rightarrow> error + real" where
  "linear_residual x u = Inr (x - 1 / 2)"

section \<open>Properties of the loop over the singularities\<close>

lemma distance_nonneg: "0 \<le> distance h \<theta> z"
  by (simp add: distance_def)

lemma distance_mirror_eq: "distance_mirror h \<theta> z = distance h \<theta> (- z)"
  by (simp add: distance_mirror_def distance_def)

lemma distance_eq_0_iff: "distance h \<theta> z = 0 \<longleftrightarrow> h * sin \<theta> = 0 \<and> h * cos \<theta> = z"
  by (simp add: distance_def sum_power2_eq_zero_iff)

lemma distance_axis0: "distance h 0 z = \<bar>h - z\<bar>"
  by (simp add: distance_def)


lemma distance_pi_half: "distance h (pi / 2) z = sqrt (h\<^sup>2 + z\<^sup>2)"
  by (simp add: distance_def)

lemma distance_mirror_pi_half: "distance_mirror h (pi / 2) z = sqrt (h\<^sup>2 + z\<^sup>2)"
  by (simp add: distance_mirror_def)

lemma sqrt25: "sqrt 25 = 5"
  by (rule real_sqrt_unique) simp_all



subsection \<open>The derivatives of the term \<open>0.5 / distance\<close>\<close>

text \<open>The term that the loop adds to \<open>psi\<close> has the radial derivative that the loop
  subtracts from \<open>dpsi_dr\<close>, and its derivative in \<open>\<theta>\<close> is
  \<open>- 0.5 \<cdot> h \<cdot> z \<cdot> sin \<theta> / distance\<^sup>3\<close>.\<close>

lemma distance_pos: "distance h \<theta> z \<noteq> 0 \<Longrightarrow> 0 < (h * sin \<theta>)\<^sup>2 + (h * cos \<theta> - z)\<^sup>2"
proof -
  assume "distance h \<theta> z \<noteq> 0"
  then have "(h * sin \<theta>)\<^sup>2 + (h * cos \<theta> - z)\<^sup>2 \<noteq> 0"
    unfolding distance_def by (simp only: real_sqrt_eq_0_iff not_False_eq_True)
  moreover have "0 \<le> (h * sin \<theta>)\<^sup>2 + (h * cos \<theta> - z)\<^sup>2" by simp
  ultimately show ?thesis by linarith
qed

lemma half_over_sqrt_derivative:
  fixes f :: "real \<Rightarrow> real"
  assumes f: "(f has_real_derivative 2 * c) (at x)" and p: "0 < f x"
  shows "((\<lambda>t. 0.5 / sqrt (f t)) has_real_derivative - (0.5 * c / sqrt (f x) ^ 3)) (at x)"
proof -
  define s where "s = sqrt (f x)"
  have s0: "0 < s" unfolding s_def using p by (rule real_sqrt_gt_zero)
  then have n: "s \<noteq> 0" by (metis less_irrefl)
  have r: "((\<lambda>t. sqrt (f t)) has_real_derivative inverse s / 2 * (2 * c)) (at x)"
    unfolding s_def by (rule DERIV_chain2 [OF DERIV_real_sqrt [OF p] f])
  have k: "((\<lambda>t. 0.5 / sqrt (f t)) has_real_derivative
      (0 * s - 0.5 * (inverse s / 2 * (2 * c))) / (s * s)) (at x)"
    using DERIV_divide [OF DERIV_const r, of "0.5"] n unfolding s_def by blast
  have e: "(0 * s - 0.5 * (inverse s / 2 * (2 * c))) / (s * s) = - (0.5 * c / s ^ 3)"
    using n by (simp add: field_simps power3_eq_cube)
  from k [unfolded e] show ?thesis unfolding s_def .
qed

lemma direct_term_dtheta:
  assumes "distance h \<theta> z \<noteq> 0"
  shows "((\<lambda>t. 0.5 / distance h t z) has_real_derivative
           - (0.5 * (h * z * sin \<theta>) / distance h \<theta> z ^ 3)) (at \<theta>)"
proof -
  let ?f = "\<lambda>t. (h * sin t)\<^sup>2 + (h * cos t - z)\<^sup>2"
  have p: "0 < ?f \<theta>" by (rule distance_pos [OF assms])
  have f: "(?f has_real_derivative 2 * (h * z * sin \<theta>)) (at \<theta>)"
    by (auto intro!: derivative_eq_intros simp: algebra_simps power2_eq_square)
  show ?thesis
    unfolding distance_def by (rule half_over_sqrt_derivative [OF f p])
qed

lemma direct_term_dr:
  assumes "distance h \<theta> z \<noteq> 0"
  shows "((\<lambda>r. 0.5 / distance r \<theta> z) has_real_derivative
           - (0.5 * (h - z * cos \<theta>) / distance h \<theta> z ^ 3)) (at h)"
proof -
  let ?f = "\<lambda>r. (r * sin \<theta>)\<^sup>2 + (r * cos \<theta> - z)\<^sup>2"
  have p: "0 < ?f h" by (rule distance_pos [OF assms])
  have e: "2 * h * (sin \<theta>)\<^sup>2 + 2 * (h * cos \<theta> - z) * cos \<theta>
      = 2 * (h - z * cos \<theta>)"
    using sin_cos_squared_add [of \<theta>] by algebra
  have "(?f has_real_derivative 2 * h * (sin \<theta>)\<^sup>2 + 2 * (h * cos \<theta> - z) * cos \<theta>) (at h)"
    by (auto intro!: derivative_eq_intros simp: algebra_simps power2_eq_square)
  then have f: "(?f has_real_derivative 2 * (h - z * cos \<theta>)) (at h)"
    by (simp only: e)
  show ?thesis
    unfolding distance_def by (rule half_over_sqrt_derivative [OF f p])
qed

text \<open>
  Claim C1. The claim gives the direct update of \<open>dpsi_dtheta\<close> as
  \<open>0.5 \<cdot> h \<cdot> z \<cdot> sin \<theta> / distance\<^sup>3\<close>, the derivative in \<open>\<theta>\<close> of the term added to \<open>psi\<close>.
  The source computes \<open>0.5\<close> to the power \<open>h\<close> times \<open>z sin \<theta> / distance\<^sup>3\<close>. At \<open>h = 3\<close>,
  \<open>\<theta> = \<pi>/2\<close>, \<open>z = 4\<close> (distance \<open>5\<close>), the updates of \<open>psi\<close> and \<open>dpsi_dr\<close> are the
  claimed \<open>0.5/5\<close> and \<open>0.5 \<cdot> 3/125\<close>, and the code subtracts \<open>1/250\<close> from \<open>dpsi_dtheta\<close>
  where the claim, and the derivative, have \<open>6/125\<close>.
\<close>

theorem dpsi_dtheta_coefficient_at_3_4:
  "direct_contribution 3 (pi / 2) 4 (1, 0, 0) = Inr (11 / 10, - 3 / 250, - 1 / 250)
   \<and> (0::real) - 0.5 * 3 * 4 * sin (pi / 2) / distance 3 (pi / 2) 4 ^ 3 = - 6 / 125
   \<and> ((\<lambda>t. 0.5 / distance 3 t 4) has_real_derivative - 6 / 125) (at (pi / 2))"
proof -
  have d: "distance 3 (pi / 2) 4 = 5" by (simp add: distance_pi_half sqrt25)
  have a: "direct_contribution 3 (pi / 2) 4 (1, 0, 0) = Inr (11 / 10, - 3 / 250, - 1 / 250)"
    by (simp add: direct_contribution_def d Let_def power3_eq_cube)
  have "((\<lambda>t. 0.5 / distance 3 t 4) has_real_derivative
      - (0.5 * (3 * 4 * sin (pi / 2)) / distance 3 (pi / 2) 4 ^ 3)) (at (pi / 2))"
    by (rule direct_term_dtheta) (simp add: d)
  then have c: "((\<lambda>t. 0.5 / distance 3 t 4) has_real_derivative - 6 / 125) (at (pi / 2))"
    by (simp add: d power3_eq_cube)
  from a c show ?thesis by (simp add: d power3_eq_cube)
qed

section \<open>Properties of the right-hand side\<close>

lemma source_step_psi_mono:
  assumes "source_step h \<theta> z (psi, dr, dt) = Inr (psi', dr', dt')"
  shows "psi \<le> psi'"
proof -
  have d: "0 \<le> 0.5 / distance h \<theta> z" and m: "0 \<le> 0.5 / distance_mirror h \<theta> z"
    by (simp_all add: distance_def distance_mirror_def)
  from assms show ?thesis
    using d m
    by (auto simp: source_step_def direct_contribution_def mirror_contribution_def Let_def
        split: if_splits)
qed

lemma field_loop_psi_mono:
  "field_loop h \<theta> zs (psi, dr, dt) = Inr (psi', dr', dt') \<Longrightarrow> psi \<le> psi'"
proof (induction zs arbitrary: psi dr dt)
  case Nil
  then show ?case by simp
next
  case (Cons z zs)
  from Cons.prems obtain p1 r1 t1 where
    s: "source_step h \<theta> z (psi, dr, dt) = Inr (p1, r1, t1)"
    and l: "field_loop h \<theta> zs (p1, r1, t1) = Inr (psi', dr', dt')"
    by (auto split: sum.splits)
  from source_step_psi_mono [OF s] Cons.IH [OF l] show ?case by simp
qed

lemma SingularityField_psi_ge_1:
  "SingularityField h \<theta> zs = Inr (psi, dr, dt) \<Longrightarrow> 1 \<le> psi"
  unfolding SingularityField_def by (rule field_loop_psi_mono)

lemma source_step_regular:
  assumes "distance h \<theta> z \<noteq> 0" and "0 < z \<longrightarrow> distance_mirror h \<theta> z \<noteq> 0"
  shows "\<exists>psi dr dt. source_step h \<theta> z acc = Inr (psi, dr, dt)"
  using assms
  by (cases acc) (simp add: source_step_def direct_contribution_def mirror_contribution_def Let_def)

lemma field_loop_regular:
  "regular_point h \<theta> zs \<Longrightarrow> \<exists>psi dr dt. field_loop h \<theta> zs acc = Inr (psi, dr, dt)"
proof (induction zs arbitrary: acc)
  case Nil
  show ?case by (cases acc) simp
next
  case (Cons z zs)
  from Cons.prems have z: "distance h \<theta> z \<noteq> 0" "0 < z \<longrightarrow> distance_mirror h \<theta> z \<noteq> 0"
    and r: "regular_point h \<theta> zs"
    by (simp_all add: regular_point_def)
  from source_step_regular [OF z] obtain a where a: "source_step h \<theta> z acc = Inr a" by blast
  from Cons.IH [OF r] show ?case by (simp add: a)
qed

lemma one_plus_square_pos: "0 < 1 + (dh / h)\<^sup>2" for dh h :: real
  by (simp add: add_pos_nonneg)



lemma cot_theta_dh_C2_cot:
  assumes "\<not> on_axis \<theta>" and "sin \<theta> \<noteq> 0" and "C2 \<noteq> 0"
  shows "cot_theta_dh_C2 \<theta> dh C2 = cot \<theta> * dh / C2"
  using assms by (simp add: cot_theta_dh_C2_def tan_def cot_def)

lemma cot_theta_dh_C2_zero_slope: "cot_theta_dh_C2 \<theta> 0 C2 = 0"
  by (simp add: cot_theta_dh_C2_def)

lemma horizon_RHS_unfold:
  assumes h: "h \<noteq> 0" and v: "valid_singularities zs"
  shows "horizon_RHS (h, dh) \<theta> zs =
     (case SingularityField h \<theta> zs of
        Inl e \<Rightarrow> Inl e
      | Inr (psi, dpsi_dr, dpsi_dtheta) \<Rightarrow>
          Inr (dh,
               2 * h - cot_theta_dh_C2 \<theta> dh (1 / (1 + (dh / h)\<^sup>2))
                 + 4 * h\<^sup>2 / (psi * (1 / (1 + (dh / h)\<^sup>2)))
                     * (dpsi_dr - dpsi_dtheta * dh / h\<^sup>2)
                 + 3 * dh\<^sup>2 / h))"
proof (cases "SingularityField h \<theta> zs")
  case (Inl e)
  with v show ?thesis
    by (simp add: horizon_RHS_def SingularityField_def)
next
  case (Inr f)
  obtain psi dr dt where f: "f = (psi, dr, dt)" by (cases f)
  from Inr f have "1 \<le> psi" by (simp add: SingularityField_psi_ge_1)
  then have psi: "psi \<noteq> 0" by simp
  have c: "1 + (dh / h)\<^sup>2 \<noteq> 0" using one_plus_square_pos [of dh h] by simp
  from Inr f h v psi c show ?thesis
    by (simp add: horizon_RHS_def SingularityField_def Let_def)
qed

lemma horizon_RHS_regular:
  assumes h: "h \<noteq> 0" and v: "valid_singularities zs" and r: "regular_point h \<theta> zs"
  shows "\<exists>psi dpsi_dr dpsi_dtheta.
     SingularityField h \<theta> zs = Inr (psi, dpsi_dr, dpsi_dtheta)
     \<and> horizon_RHS (h, dh) \<theta> zs =
         Inr (dh,
              2 * h - cot_theta_dh_C2 \<theta> dh (1 / (1 + (dh / h)\<^sup>2))
                + 4 * h\<^sup>2 / (psi * (1 / (1 + (dh / h)\<^sup>2)))
                    * (dpsi_dr - dpsi_dtheta * dh / h\<^sup>2)
                + 3 * dh\<^sup>2 / h)"
proof -
  from r obtain psi dr dt where f: "SingularityField h \<theta> zs = Inr (psi, dr, dt)"
    unfolding SingularityField_def using field_loop_regular by blast
  show ?thesis
    unfolding horizon_RHS_unfold [OF h v] f by simp
qed

lemma not_on_axis: "1 / 10 ^ 16 \<le> \<theta> \<Longrightarrow> \<theta> + 1 / 10 ^ 16 \<le> pi \<Longrightarrow> \<not> on_axis \<theta>"
  by (simp add: on_axis_def)

lemma not_on_axis_pi_quarter: "\<not> on_axis (pi / 4)"
  using pi_ge_two by (intro not_on_axis) simp_all

lemma on_axis_0: "on_axis 0"
  by (simp add: on_axis_def)




lemma regular_point_off_axis:
  assumes h: "h \<noteq> 0" and s: "sin \<theta> \<noteq> 0"
  shows "regular_point h \<theta> zs"
proof -
  from h s have "h * sin \<theta> \<noteq> 0" by simp
  then have "distance h \<theta> z \<noteq> 0" for z
    by (simp add: distance_eq_0_iff)
  then show ?thesis
    by (simp add: regular_point_def list_all_iff distance_mirror_eq)
qed

text \<open>
  Claim C4, as amended. For a state with \<open>h \<noteq> 0\<close>, any angle and any valid list of
  singularities none of which coincides with the query point \<open>(h, \<theta>)\<close>, the loop returns
  field values \<open>(psi, dpsi_dr, dpsi_dtheta)\<close> and \<^verbatim>\<open>horizon_RHS\<close> returns
  \<open>(dh, 2h - cot_term + 4h\<^sup>2/(psi C2) (dpsi_dr - dpsi_dtheta dh/h\<^sup>2) + 3 dh\<^sup>2/h)\<close> with
  \<open>C2 = 1/(1 + (dh/h)\<^sup>2)\<close> and \<open>cot_term\<close> the term of the source, \<open>0\<close> on the axis and
  \<open>dh/(tan \<theta> \<cdot> C2)\<close> off it. A source can coincide with the query point only where
  \<open>sin \<theta> = 0\<close>.
\<close>

theorem horizon_RHS_formula:
  assumes h: "h \<noteq> 0" and v: "valid_singularities zs"
  shows "(regular_point h \<theta> zs \<longrightarrow>
      (\<exists>psi dpsi_dr dpsi_dtheta.
         SingularityField h \<theta> zs = Inr (psi, dpsi_dr, dpsi_dtheta)
         \<and> horizon_RHS (h, dh) \<theta> zs =
             Inr (dh,
                  2 * h - (if on_axis \<theta> then 0 else dh / (tan \<theta> * (1 / (1 + (dh / h)\<^sup>2))))
                    + 4 * h\<^sup>2 / (psi * (1 / (1 + (dh / h)\<^sup>2)))
                        * (dpsi_dr - dpsi_dtheta * dh / h\<^sup>2)
                    + 3 * dh\<^sup>2 / h)))
   \<and> (sin \<theta> \<noteq> 0 \<longrightarrow> regular_point h \<theta> zs)"
proof (intro conjI impI)
  assume "regular_point h \<theta> zs"
  from horizon_RHS_regular [OF h v this, of dh]
  show "\<exists>psi dpsi_dr dpsi_dtheta.
         SingularityField h \<theta> zs = Inr (psi, dpsi_dr, dpsi_dtheta)
         \<and> horizon_RHS (h, dh) \<theta> zs =
             Inr (dh,
                  2 * h - (if on_axis \<theta> then 0 else dh / (tan \<theta> * (1 / (1 + (dh / h)\<^sup>2))))
                    + 4 * h\<^sup>2 / (psi * (1 / (1 + (dh / h)\<^sup>2)))
                        * (dpsi_dr - dpsi_dtheta * dh / h\<^sup>2)
                    + 3 * dh\<^sup>2 / h)"
    by (simp add: cot_theta_dh_C2_def)
next
  assume "sin \<theta> \<noteq> 0"
  with h show "regular_point h \<theta> zs" by (rule regular_point_off_axis)
qed

lemma field_1_0_0: "SingularityField 1 0 [0] = Inr (3 / 2, - 1 / 2, 0)"
  by (simp add: SingularityField_def source_step_def direct_contribution_def distance_axis0)

lemma field_3_equator_4: "SingularityField 3 (pi / 2) [4] = Inr (6 / 5, - 3 / 125, 0)"
  by (simp add: SingularityField_def source_step_def direct_contribution_def
      mirror_contribution_def distance_pi_half distance_mirror_pi_half sqrt25 power3_eq_cube)

theorem horizon_RHS_formula_witness:
  "(1::real) \<noteq> 0 \<and> valid_singularities [0] \<and> regular_point 1 0 [0]
   \<and> horizon_RHS (1, 1) 0 [0] = Inr (1, 7 / 3)
   \<and> (3::real) \<noteq> 0 \<and> valid_singularities [4] \<and> sin (pi / 2 :: real) \<noteq> 0
   \<and> regular_point 3 (pi / 2) [4]
   \<and> horizon_RHS (3, 1) (pi / 2) [4] = Inr (1, 31 / 5)"
proof -
  have v: "valid_singularities [0]" by (simp add: valid_singularities_def)
  have r: "regular_point 1 0 [0]" by (simp add: regular_point_def distance_axis0)
  from horizon_RHS_formula [where h = 1 and dh = 1 and \<theta> = 0, OF _ v] r
  obtain psi dr dt where f: "SingularityField 1 0 [0] = Inr (psi, dr, dt)"
    and e: "horizon_RHS (1, 1) 0 [0] =
      Inr (1, 2 * 1 - (if on_axis 0 then 0 else 1 / (tan 0 * (1 / (1 + (1 / 1)\<^sup>2))))
                + 4 * 1\<^sup>2 / (psi * (1 / (1 + (1 / 1)\<^sup>2))) * (dr - dt * 1 / 1\<^sup>2)
                + 3 * 1\<^sup>2 / 1)"
    by auto
  from f have "psi = 3 / 2" "dr = - 1 / 2" "dt = 0" by (simp_all add: field_1_0_0)
  with e have a: "horizon_RHS (1, 1) 0 [0] = Inr (1, 7 / 3)" by (simp add: on_axis_0)
  have w: "valid_singularities [4]" by (simp add: valid_singularities_def)
  note t = horizon_RHS_formula [where h = 3 and dh = 1 and \<theta> = "pi / 2", OF _ w]
  from t have q: "regular_point 3 (pi / 2) [4]" by simp
  with t obtain psi2 dr2 dt2 where f2: "SingularityField 3 (pi / 2) [4] = Inr (psi2, dr2, dt2)"
    and e2: "horizon_RHS (3, 1) (pi / 2) [4] =
      Inr (1, 2 * 3 - (if on_axis (pi / 2) then 0
                       else 1 / (tan (pi / 2) * (1 / (1 + (1 / 3)\<^sup>2))))
                + 4 * 3\<^sup>2 / (psi2 * (1 / (1 + (1 / 3)\<^sup>2))) * (dr2 - dt2 * 1 / 3\<^sup>2)
                + 3 * 1\<^sup>2 / 3)"
    by auto
  from f2 have "psi2 = 6 / 5" "dr2 = - 3 / 125" "dt2 = 0" by (simp_all add: field_3_equator_4)
  with e2 have b: "horizon_RHS (3, 1) (pi / 2) [4] = Inr (1, 31 / 5)"
    by (simp add: tan_def power2_eq_square)
  from v r a w q b show ?thesis by simp
qed

text \<open>
  Claim C4 as stated fails when a source lies at the query point: for \<open>h = 2\<close>, \<open>\<theta> = 0\<close>
  and sources at \<open>z = 0\<close> and \<open>z = 2\<close> the second pass of the loop divides by the
  distance \<open>|h - z| = 0\<close>, and no vector is returned.
\<close>

theorem horizon_RHS_formula_counterexample:
  "(2::real) \<noteq> 0 \<and> valid_singularities [0, 2]
   \<and> distance 2 0 2 = 0
   \<and> horizon_RHS (2, 0) 0 [0, 2] = Inl NumericalDomain"
  by (simp add: horizon_RHS_def valid_singularities_def source_step_def
      direct_contribution_def distance_axis0)

text \<open>
  Claim C9. The empty list of singularities passes the assertion, the loop leaves
  \<open>psi = 1\<close> and both derivatives \<open>0\<close>, and for \<open>h \<noteq> 0\<close> and every angle the result is the
  flat-space right-hand side \<open>(dh, 2h - cot_term + 3 dh\<^sup>2/h)\<close>, with \<open>cot_term\<close> the term
  of the source, \<open>0\<close> on the axis and \<open>dh/(tan \<theta> \<cdot> C2)\<close> off it.
\<close>

theorem horizon_RHS_no_singularities:
  assumes h: "h \<noteq> 0"
  shows "valid_singularities []
   \<and> SingularityField h \<theta> [] = Inr (1, 0, 0)
   \<and> horizon_RHS (h, dh) \<theta> [] =
       Inr (dh,
            2 * h - (if on_axis \<theta> then 0 else dh / (tan \<theta> * (1 / (1 + (dh / h)\<^sup>2))))
              + 3 * dh\<^sup>2 / h)"
proof -
  have v: "valid_singularities []" by (simp add: valid_singularities_def)
  have f: "SingularityField h \<theta> [] = Inr (1, 0, 0)" by (simp add: SingularityField_def)
  have "horizon_RHS (h, dh) \<theta> [] =
       Inr (dh,
            2 * h - (if on_axis \<theta> then 0 else dh / (tan \<theta> * (1 / (1 + (dh / h)\<^sup>2))))
              + 3 * dh\<^sup>2 / h)"
    unfolding horizon_RHS_unfold [OF h v] f by (simp add: cot_theta_dh_C2_def)
  with v f show ?thesis by simp
qed

theorem horizon_RHS_no_singularities_witness:
  "(1::real) \<noteq> 0
   \<and> horizon_RHS (1, 1) (pi / 4) [] = Inr (1, 3)
   \<and> horizon_RHS (1, 1) 0 [] = Inr (1, 5)
   \<and> horizon_RHS (1, 1) (pi / 2) [] = Inr (1, 5)"
proof -
  note t = horizon_RHS_no_singularities [of 1 "pi / 4" 1]
  note s = horizon_RHS_no_singularities [of 1 0 1]
  note u = horizon_RHS_no_singularities [of 1 "pi / 2" 1]
  have a: "horizon_RHS (1, 1) (pi / 4) [] = Inr (1, 3)"
    using t [THEN conjunct2, THEN conjunct2] not_on_axis_pi_quarter
    by (simp add: tan_45)
  have b: "horizon_RHS (1, 1) 0 [] = Inr (1, 5)"
    using s [THEN conjunct2, THEN conjunct2] on_axis_0 by simp
  have c: "horizon_RHS (1, 1) (pi / 2) [] = Inr (1, 5)"
    using u [THEN conjunct2, THEN conjunct2] by (simp add: tan_def)
  from a b c show ?thesis by simp
qed







section \<open>The field on the equatorial plane\<close>

lemma source_step_equator:
  assumes h: "0 < h" and z: "0 \<le> z"
  shows "\<exists>psi1 dr1. source_step h (pi / 2) z (psi, dr, dt) = Inr (psi1, dr1, dt)"
proof -
  have d: "sqrt (h\<^sup>2 + z\<^sup>2) \<noteq> 0" using h by simp
  show ?thesis
  proof (cases "0 < z")
    case True
    with d show ?thesis
      by (simp add: source_step_def direct_contribution_def mirror_contribution_def
          distance_pi_half distance_mirror_pi_half Let_def)
  next
    case False
    with z have "z = 0" by simp
    with d show ?thesis
      by (simp add: source_step_def direct_contribution_def distance_pi_half Let_def)
  qed
qed

lemma field_loop_equator:
  assumes h: "0 < h"
  shows "valid_singularities zs \<Longrightarrow>
    \<exists>psi1 dr1. field_loop h (pi / 2) zs (psi, dr, dt) = Inr (psi1, dr1, dt)"
proof (induction zs arbitrary: psi dr)
  case Nil
  show ?case by simp
next
  case (Cons z zs)
  from Cons.prems have z: "0 \<le> z" and v: "valid_singularities zs"
    by (simp_all add: valid_singularities_def)
  from source_step_equator [OF h z] obtain p1 r1 where
    s: "source_step h (pi / 2) z (psi, dr, dt) = Inr (p1, r1, dt)" by blast
  from Cons.IH [OF v] show ?case by (simp add: s)
qed

lemma regular_point_equator: "0 < h \<Longrightarrow> regular_point h (pi / 2) zs"
proof -
  assume h: "0 < h"
  have "sqrt (h\<^sup>2 + z\<^sup>2) \<noteq> 0" for z
    using h by simp
  then show ?thesis
    by (simp add: regular_point_def list_all_iff distance_pi_half distance_mirror_pi_half)
qed

text \<open>
  Claim C10. At \<open>\<theta> = \<pi>/2\<close>, for \<open>h > 0\<close> and a valid list of singularities, no source
  coincides with the query point and the accumulated \<open>dpsi_dtheta\<close> is exactly \<open>0\<close>: a
  source at \<open>z = 0\<close> contributes a term with the factor \<open>z\<close>, and for \<open>z > 0\<close> the direct and
  the mirror distance are equal, so the two terms cancel.
\<close>

theorem dpsi_dtheta_zero_at_equator:
  assumes "0 < h" and "valid_singularities zs"
  shows "regular_point h (pi / 2) zs
   \<and> (\<exists>psi dpsi_dr. SingularityField h (pi / 2) zs = Inr (psi, dpsi_dr, 0))"
  using assms
  by (simp add: regular_point_equator SingularityField_def field_loop_equator)

theorem dpsi_dtheta_zero_at_equator_witness:
  "(0::real) < 3 \<and> valid_singularities [0, 4]
   \<and> (\<exists>psi dpsi_dr. SingularityField 3 (pi / 2) [0, 4] = Inr (psi, dpsi_dr, 0))
   \<and> SingularityField 3 (pi / 2) [4] = Inr (6 / 5, - 3 / 125, 0)"
proof -
  have v: "valid_singularities [0, 4]" by (simp add: valid_singularities_def)
  have e: "SingularityField 3 (pi / 2) [4] = Inr (6 / 5, - 3 / 125, 0)"
    by (simp add: SingularityField_def source_step_def direct_contribution_def
        mirror_contribution_def distance_pi_half distance_mirror_pi_half sqrt25 power3_eq_cube)
  from dpsi_dtheta_zero_at_equator [OF _ v, of 3] v e show ?thesis by simp
qed

section \<open>The assertion on the singularities\<close>

lemma horizon_RHS_invalid:
  "\<not> valid_singularities zs \<Longrightarrow> horizon_RHS H \<theta> zs = Inl InvalidInput"
  by (cases H) (simp add: horizon_RHS_def)

lemma length_linspace: "length (linspace a b n) = n"
  by (simp add: linspace_def)

lemma integrate_invalid:
  assumes n: "2 \<le> Ntheta" and s: "\<And>H \<theta> d. step H \<theta> d zs = Inl InvalidInput"
  shows "integrate step h0 Ntheta zs = Inl InvalidInput"
proof -
  from n have "take (Ntheta - 1) (linspace 0 (pi / 2) Ntheta) \<noteq> []"
    by (simp add: linspace_def)
  then obtain t ts where "take (Ntheta - 1) (linspace 0 (pi / 2) Ntheta) = t # ts"
    by (cases "take (Ntheta - 1) (linspace 0 (pi / 2) Ntheta)") auto
  with n s show ?thesis
    by (simp add: integrate_def length_linspace Let_def)
qed

text \<open>
  Claim C5. When the list of singularities has a negative entry, \<^verbatim>\<open>horizon_RHS\<close> fails
  with \<open>InvalidInput\<close> for every state and angle (the assertion precedes the loop and the
  derivative, so no other failure can come first), and so do the components built on it:
  both steppers, the integration driver and the residual on a grid of at least two
  points, and the secant solver on such a residual.
\<close>

theorem negative_singularity_rejected:
  assumes "z \<in> set zs" and "z < 0"
  shows "horizon_RHS H \<theta> zs = Inl InvalidInput
   \<and> euler_step H \<theta> dtheta zs = Inl InvalidInput
   \<and> rk2_step H \<theta> dtheta zs = Inl InvalidInput
   \<and> (2 \<le> Ntheta \<longrightarrow>
        integrate euler_step h0 Ntheta zs = Inl InvalidInput
        \<and> integrate rk2_step h0 Ntheta zs = Inl InvalidInput
        \<and> residual euler_step Ntheta h0 zs = Inl InvalidInput
        \<and> residual rk2_step Ntheta h0 zs = Inl InvalidInput
        \<and> secant (residual euler_step Ntheta) x0 x1 zs tolerance maxIterations
            = Inl (Failed InvalidInput)
        \<and> secant (residual rk2_step Ntheta) x0 x1 zs tolerance maxIterations
            = Inl (Failed InvalidInput))"
proof -
  from assms have nv: "\<not> valid_singularities zs"
    by (auto simp: valid_singularities_def list_all_iff not_le)
  have e: "euler_step H \<theta> d zs = Inl InvalidInput" for H \<theta> d
    by (simp add: euler_step_def horizon_RHS_invalid [OF nv])
  have k: "rk2_step H \<theta> d zs = Inl InvalidInput" for H \<theta> d
    by (simp add: rk2_step_def horizon_RHS_invalid [OF nv])
  have ie: "integrate euler_step h Ntheta zs = Inl InvalidInput" if "2 \<le> Ntheta" for h
    using that e by (rule integrate_invalid)
  have ik: "integrate rk2_step h Ntheta zs = Inl InvalidInput" if "2 \<le> Ntheta" for h
    using that k by (rule integrate_invalid)
  show ?thesis
    using horizon_RHS_invalid [OF nv] e k ie ik
    by (simp add: residual_def secant_def)
qed

theorem negative_singularity_rejected_witness:
  "(- 1 :: real) \<in> set [0, - 1] \<and> (- 1 :: real) < 0
   \<and> horizon_RHS (0, 0) 0 [0, - 1] = Inl InvalidInput
   \<and> euler_step (1, 0) 0 (pi / 2) [0, - 1] = Inl InvalidInput
   \<and> rk2_step (1, 0) 0 (pi / 2) [0, - 1] = Inl InvalidInput
   \<and> integrate rk2_step (1 / 2) 100 [0, - 1] = Inl InvalidInput
   \<and> residual euler_step 100 (1 / 2) [0, - 1] = Inl InvalidInput
   \<and> secant (residual rk2_step 100) (2 / 5) (3 / 5) [0, - 1] None 20 = Inl (Failed InvalidInput)"
  using negative_singularity_rejected [of "- 1" "[0, - 1]" "(0, 0)" 0 "pi / 2" 100 "1 / 2"
      "2 / 5" "3 / 5" None 20]
    negative_singularity_rejected [of "- 1" "[0, - 1]" "(1, 0)" 0 "pi / 2" 100 "1 / 2"
      "2 / 5" "3 / 5" None 20]
  by simp

section \<open>The second-order step\<close>

text \<open>
  Claim C7. For every state, angle, step size and list of singularities, the corrector
  \<open>0.5 \<cdot> (H_i + H_p + \<Delta>\<theta> \<cdot> F(H_p, \<theta>_{i+1}))\<close> with the predictor
  \<open>H_p = H_i + \<Delta>\<theta> \<cdot> F(H_i, \<theta>_i)\<close> equals the trapezoidal form
  \<open>H_i + (\<Delta>\<theta>/2) \<cdot> (F(H_i, \<theta>_i) + F(H_p, \<theta>_{i+1}))\<close>, failures of \<open>F\<close> included.
\<close>

theorem rk2_step_is_trapezoid:
  "rk2_step Hi theta_i dtheta z_singularity = rk2_trapezoid Hi theta_i dtheta z_singularity"
proof -
  have "vscale 0.5 (vadd (vadd H (vadd H (vscale d F))) (vscale d Fp))
      = vadd H (vscale (d / 2) (vadd F Fp))" for H F Fp :: state_vector and d :: real
    by (simp add: vscale_def vadd_def algebra_simps)
  then show ?thesis
    by (simp add: rk2_step_def rk2_trapezoid_def Let_def split: sum.splits)
qed

section \<open>The Schwarzschild case\<close>

lemma field_schwarzschild: "SingularityField (1 / 2) \<theta> [0] = Inr (2, - 2, 0)"
proof -
  have "(sin \<theta> / 2)\<^sup>2 + (cos \<theta> / 2)\<^sup>2 = ((sin \<theta>)\<^sup>2 + (cos \<theta>)\<^sup>2) / 4"
    by (simp add: power_divide)
  then have "(sin \<theta> / 2)\<^sup>2 + (cos \<theta> / 2)\<^sup>2 = (1 / 2)\<^sup>2"
    by (simp add: power_divide)
  then have d: "distance (1 / 2) \<theta> 0 = 1 / 2"
    by (simp add: distance_def real_sqrt_divide)
  show ?thesis
    by (simp add: SingularityField_def source_step_def direct_contribution_def d
        power3_eq_cube)
qed

lemma horizon_RHS_schwarzschild: "horizon_RHS (1 / 2, 0) \<theta> [0] = Inr (0, 0)"
proof -
  have v: "valid_singularities [0]" by (simp add: valid_singularities_def)
  show ?thesis
    using horizon_RHS_unfold [OF _ v, of "1 / 2" 0 \<theta>]
    by (simp add: field_schwarzschild cot_theta_dh_C2_zero_slope power2_eq_square)
qed

lemma euler_step_schwarzschild: "euler_step (1 / 2, 0) \<theta> dtheta [0] = Inr (1 / 2, 0)"
  by (simp add: euler_step_def horizon_RHS_schwarzschild vadd_def vscale_def)

lemma rk2_step_schwarzschild: "rk2_step (1 / 2, 0) \<theta> dtheta [0] = Inr (1 / 2, 0)"
  by (simp add: rk2_step_def horizon_RHS_schwarzschild vadd_def vscale_def)

lemma integrate_loop_fixed:
  "(\<And>\<theta>. \<theta> \<in> set thetas \<Longrightarrow> step H \<theta> d zs = Inr H) \<Longrightarrow>
   integrate_loop step zs d thetas H = Inr (replicate (Suc (length thetas)) H)"
  by (induction thetas) simp_all

lemma integrate_fixed:
  assumes n: "2 \<le> Ntheta" and s: "\<And>\<theta> d. step (h0, 0) \<theta> d zs = Inr (h0, 0)"
  shows "integrate step h0 Ntheta zs = Inr (replicate Ntheta (h0, 0))"
proof -
  let ?ts = "take (Ntheta - 1) (linspace 0 (pi / 2) Ntheta)"
  have l: "length ?ts = Ntheta - 1" by (simp add: length_linspace)
  from n have "Suc (Ntheta - 1) = Ntheta" by simp
  with integrate_loop_fixed [of ?ts step "(h0, 0)" _ zs, OF s] l n
  show ?thesis
    by (simp add: integrate_def length_linspace Let_def)
qed

text \<open>
  Claim C3. For the single singularity at \<open>z = 0\<close> and the state \<open>(0.5, 0)\<close>, in exact
  arithmetic \<^verbatim>\<open>horizon_RHS\<close> returns \<open>(0, 0)\<close> at every angle, so an Euler step and a
  second-order step return the state unchanged for every angle and step size, and the
  driver on the uniform grid of \<open>Ntheta \<ge> 2\<close> points from \<open>0\<close> to \<open>\<pi>/2\<close>, with either
  stepper, returns the trajectory that is \<open>(0.5, 0)\<close> at every grid point.
\<close>

theorem schwarzschild_fixed_point:
  "horizon_RHS (1 / 2, 0) \<theta> [0] = Inr (0, 0)
   \<and> euler_step (1 / 2, 0) \<theta> dtheta [0] = Inr (1 / 2, 0)
   \<and> rk2_step (1 / 2, 0) \<theta> dtheta [0] = Inr (1 / 2, 0)
   \<and> (2 \<le> Ntheta \<longrightarrow>
        integrate euler_step (1 / 2) Ntheta [0] = Inr (replicate Ntheta (1 / 2, 0))
        \<and> integrate rk2_step (1 / 2) Ntheta [0] = Inr (replicate Ntheta (1 / 2, 0)))"
  using horizon_RHS_schwarzschild [of \<theta>] euler_step_schwarzschild [of \<theta> dtheta]
    rk2_step_schwarzschild [of \<theta> dtheta]
    integrate_fixed [of Ntheta euler_step "1 / 2" "[0]", OF _ euler_step_schwarzschild]
    integrate_fixed [of Ntheta rk2_step "1 / 2" "[0]", OF _ rk2_step_schwarzschild]
  by blast

theorem schwarzschild_fixed_point_witness:
  "horizon_RHS (1 / 2, 0) (pi / 2) [0] = Inr (0, 0)
   \<and> euler_step (1 / 2, 0) 0 (pi / 4) [0] = Inr (1 / 2, 0)
   \<and> rk2_step (1 / 2, 0) (pi / 4) (pi / 4) [0] = Inr (1 / 2, 0)
   \<and> (2::nat) \<le> 100
   \<and> integrate euler_step (1 / 2) 100 [0] = Inr (replicate 100 (1 / 2, 0))
   \<and> integrate rk2_step (1 / 2) 100 [0] = Inr (replicate 100 (1 / 2, 0))"
  using schwarzschild_fixed_point [of "pi / 2" 0 100]
    schwarzschild_fixed_point [of 0 "pi / 4" 100]
    schwarzschild_fixed_point [of "pi / 4" "pi / 4" 100]
  by simp

section \<open>The secant solver\<close>

lemma secant_loop_converged:
  "\<bar>r\<bar> < tol \<Longrightarrow> secant_loop R args tol k xp rp x r = Inr x"
  by (cases k) simp_all

lemma secant_loop_exhausted:
  "\<not> \<bar>r\<bar> < tol \<Longrightarrow> secant_loop R args tol 0 xp rp x r = Inl (NonConvergenceError x r)"
  by simp

lemma secant_loop_root:
  "R x args = Inr r \<Longrightarrow> secant_loop R args tol k xp rp x r = Inr y \<Longrightarrow>
   \<exists>s. R y args = Inr s \<and> \<bar>s\<bar> < tol"
proof (induction k arbitrary: xp rp x r)
  case 0
  then show ?case by (simp split: if_splits)
next
  case (Suc k)
  show ?case
  proof (cases "\<bar>r\<bar> < tol")
    case True
    with Suc.prems show ?thesis by simp
  next
    case False
    with Suc.prems obtain rn where
      n: "R (x - r * (x - xp) / (r - rp)) args = Inr rn"
      and l: "secant_loop R args tol k x r (x - r * (x - xp) / (r - rp)) rn = Inr y"
      by (auto simp: Let_def split: if_splits sum.splits)
    from Suc.IH [OF n l] show ?thesis .
  qed
qed

lemma secant_loop_nonconvergence:
  "R x args = Inr r \<Longrightarrow>
   secant_loop R args tol k xp rp x r = Inl (NonConvergenceError y s) \<Longrightarrow>
   R y args = Inr s \<and> \<not> \<bar>s\<bar> < tol"
proof (induction k arbitrary: xp rp x r)
  case 0
  then show ?case by (simp split: if_splits)
next
  case (Suc k)
  show ?case
  proof (cases "\<bar>r\<bar> < tol")
    case True
    with Suc.prems show ?thesis by simp
  next
    case False
    with Suc.prems obtain rn where
      n: "R (x - r * (x - xp) / (r - rp)) args = Inr rn"
      and l: "secant_loop R args tol k x r (x - r * (x - xp) / (r - rp)) rn
                = Inl (NonConvergenceError y s)"
      by (auto simp: Let_def split: if_splits sum.splits)
    from Suc.IH [OF n l] show ?thesis .
  qed
qed

lemma secant_unfold:
  assumes "secant R x0 x1 args tolerance maxIterations = res" and "\<And>e. res \<noteq> Inl (Failed e)"
  shows "\<exists>r0 r1. R x1 args = Inr r1
    \<and> secant_loop R args (tolerance_or_default tolerance) maxIterations x0 r0 x1 r1 = res"
proof (cases "R x0 args")
  case (Inl e)
  with assms(1) have "res = Inl (Failed e)" by (simp add: secant_def)
  with assms(2) show ?thesis by blast
next
  case r0: (Inr r0)
  show ?thesis
  proof (cases "R x1 args")
    case (Inl e)
    with assms(1) r0 have "res = Inl (Failed e)" by (simp add: secant_def)
    with assms(2) show ?thesis by blast
  next
    case (Inr r1)
    with assms(1) r0
    have "secant_loop R args (tolerance_or_default tolerance) maxIterations x0 r0 x1 r1 = res"
      by (simp add: secant_def)
    with Inr show ?thesis by blast
  qed
qed

lemma secant_root:
  assumes "secant R x0 x1 args tolerance maxIterations = Inr y"
  shows "\<exists>s. R y args = Inr s \<and> \<bar>s\<bar> < tolerance_or_default tolerance"
proof -
  from secant_unfold [OF assms] obtain r0 r1 where "R x1 args = Inr r1"
    and "secant_loop R args (tolerance_or_default tolerance) maxIterations x0 r0 x1 r1 = Inr y"
    by auto
  then show ?thesis by (rule secant_loop_root)
qed

lemma secant_nonconvergence:
  assumes "secant R x0 x1 args tolerance maxIterations = Inl (NonConvergenceError y s)"
  shows "R y args = Inr s \<and> \<not> \<bar>s\<bar> < tolerance_or_default tolerance"
proof -
  from secant_unfold [OF assms] obtain r0 r1 where "R x1 args = Inr r1"
    and "secant_loop R args (tolerance_or_default tolerance) maxIterations x0 r0 x1 r1
           = Inl (NonConvergenceError y s)"
    by auto
  then show ?thesis by (rule secant_loop_nonconvergence)
qed

lemma secant_default_tolerance:
  "secant R x0 x1 args None maxIterations = secant R x0 x1 args (Some (1 / 10 ^ 10)) maxIterations"
  by (simp add: secant_def tolerance_or_default_def split: sum.splits)

text \<open>
  Claim C8. The solver takes an iteration bound beside a tolerance whose default is
  \<open>1e-10\<close>. Whenever the residual of the current iterate is below the tolerance the loop
  returns that iterate, whatever is left of the budget; when the budget is used up and
  the residual of the current iterate is not below the tolerance the loop fails with a
  NonConvergenceError that carries this iterate and its residual. Hence a returned value
  is a point whose residual is below the tolerance, and a NonConvergenceError carries a
  point together with its residual, which is not below the tolerance.
\<close>

theorem secant_outcomes:
  "secant R x0 x1 args None maxIterations = secant R x0 x1 args (Some (1 / 10 ^ 10)) maxIterations
   \<and> (\<bar>r\<bar> < tol \<longrightarrow> secant_loop R args tol k xp rp x r = Inr x)
   \<and> (\<not> \<bar>r\<bar> < tol \<longrightarrow> secant_loop R args tol 0 xp rp x r = Inl (NonConvergenceError x r))
   \<and> (secant R x0 x1 args tolerance maxIterations = Inr y \<longrightarrow>
        (\<exists>s. R y args = Inr s \<and> \<bar>s\<bar> < tolerance_or_default tolerance))
   \<and> (secant R x0 x1 args tolerance maxIterations = Inl (NonConvergenceError y s) \<longrightarrow>
        R y args = Inr s \<and> \<not> \<bar>s\<bar> < tolerance_or_default tolerance)"
  using secant_default_tolerance [of R x0 x1 args maxIterations]
    secant_loop_converged [of r tol R args k xp rp x]
    secant_loop_exhausted [of r tol R args xp rp x]
    secant_root [of R x0 x1 args tolerance maxIterations y]
    secant_nonconvergence [of R x0 x1 args tolerance maxIterations y s]
  by blast

text \<open>A run on the residual \<open>x - 1/2\<close> from the seeds \<open>0.4\<close> and \<open>0.6\<close>: one update reaches
  the root; with no update allowed the solver reports the second seed and its residual.\<close>

theorem secant_outcomes_witness:
  "secant linear_residual (2 / 5) (3 / 5) () None 1 = Inr (1 / 2)
   \<and> linear_residual (1 / 2) () = Inr 0
   \<and> secant linear_residual (2 / 5) (3 / 5) () None 0 = Inl (NonConvergenceError (3 / 5) (1 / 10))
   \<and> linear_residual (3 / 5) () = Inr (1 / 10)
   \<and> secant_loop linear_residual () (1 / 10 ^ 10) 7 (2 / 5) (- 1 / 10) (1 / 2) 0 = Inr (1 / 2)"
proof -
  have a: "secant linear_residual (2 / 5) (3 / 5) () None 1 = Inr (1 / 2)"
    by (simp add: secant_def linear_residual_def tolerance_or_default_def)
  have b: "secant linear_residual (2 / 5) (3 / 5) () None 0
      = Inl (NonConvergenceError (3 / 5) (1 / 10))"
    by (simp add: secant_def linear_residual_def tolerance_or_default_def)
  note t = secant_outcomes [of linear_residual "2 / 5" "3 / 5" "()" 1 0 "1 / 10 ^ 10" 7
      "2 / 5" "- 1 / 10" "1 / 2" None "1 / 2" 0]
  note u = secant_outcomes [of linear_residual "2 / 5" "3 / 5" "()" 0 0 "1 / 10 ^ 10" 7
      "2 / 5" "- 1 / 10" "1 / 2" None "3 / 5" "1 / 10"]
  from t a have c: "\<exists>s. linear_residual (1 / 2) () = Inr s \<and> \<bar>s\<bar> < tolerance_or_default None"
    by blast
  from u b have d: "linear_residual (3 / 5) () = Inr (1 / 10)" by blast
  from t have e: "secant_loop linear_residual () (1 / 10 ^ 10) 7 (2 / 5) (- 1 / 10) (1 / 2) 0
      = Inr (1 / 2)" by simp
  from c have "linear_residual (1 / 2) () = Inr 0" by (simp add: linear_residual_def)
  with a b d e show ?thesis by simp
qed

end
